theory Spec2Isabelle
  imports Main "HOL-Library.AList"
begin

section \<open>Process descriptors of the pipeline generator\<close>

text \<open>
  A shallow embedding of \<^verbatim>\<open>assemblerflow/generator/process.py\<close>: the class
  \<^verbatim>\<open>Process\<close>, its specialisations \<^verbatim>\<open>Status\<close> and \<^verbatim>\<open>Init\<close>, and the catalog
  of concrete process classes. An object is a record of its instance attributes, a
  method takes the object and returns the updated one, and a raised exception is the
  \<open>Inl\<close> value of a sum. An attribute whose Python name starts with an underscore has
  the prefix \<open>u_\<close> here (\<^verbatim>\<open>_context\<close> is \<open>u_context\<close>).
\<close>

subsection \<open>Python values, strings and dictionaries\<close>

text \<open>
  The values that reach string formatting and the template context: \<^verbatim>\<open>None\<close>,
  integers and strings.
\<close>

datatype pyval = PyNone | PyInt int | PyStr string

text \<open>
  The exceptions of the module. The two explicit \<^verbatim>\<open>raise Exception(...)\<close> statements
  are \<open>MissingTemplate\<close> (with its message) and \<open>ContextNotSet\<close>; the others are the
  exceptions the interpreter raises: reading an attribute the object does not have,
  unpacking or subscripting \<^verbatim>\<open>None\<close>, indexing an empty list.
\<close>

datatype pyerror =
    MissingTemplate string
  | ContextNotSet
  | AttributeError string
  | TypeError
  | IndexError

definition nl :: string where
  "nl = [CHR 0x0A]"

text \<open>\<^verbatim>\<open>str(n)\<close> for an integer: decimal digits, a minus sign when negative.\<close>

definition digit_char :: "nat \<Rightarrow> char" where
  "digit_char n = ''0123456789'' ! (n mod 10)"

fun str_nat :: "nat \<Rightarrow> string" where
  "str_nat n = (if n < 10 then [digit_char n] else str_nat (n div 10) @ [digit_char (n mod 10)])"

declare str_nat.simps [simp del]

definition str_int :: "int \<Rightarrow> string" where
  "str_int i = (if i < 0 then ''-'' @ str_nat (nat (- i)) else str_nat (nat i))"

text \<open>What \<^verbatim>\<open>"{}".format(v)\<close> writes for a value.\<close>

fun py_str :: "pyval \<Rightarrow> string" where
  "py_str PyNone = ''None''"
| "py_str (PyInt i) = str_int i"
| "py_str (PyStr s) = s"

text \<open>An attribute that holds a string or \<^verbatim>\<open>None\<close>, as a value.\<close>

fun opt_val :: "string option \<Rightarrow> pyval" where
  "opt_val None = PyNone"
| "opt_val (Some s) = PyStr s"

text \<open>\<^verbatim>\<open>sep.join(xs)\<close> and \<^verbatim>\<open>s.startswith(p)\<close>, \<^verbatim>\<open>s.endswith(p)\<close>.\<close>

fun join :: "string \<Rightarrow> string list \<Rightarrow> string" where
  "join sep [] = []"
| "join sep [x] = x"
| "join sep (x # y # ys) = x @ sep @ join sep (y # ys)"

definition startswith :: "string \<Rightarrow> string \<Rightarrow> bool" where
  "startswith p s = (take (length p) s = p)"

definition endswith :: "string \<Rightarrow> string \<Rightarrow> bool" where
  "endswith p s = (length p \<le> length s \<and> drop (length s - length p) s = p)"

text \<open>
  A dictionary with string keys is an association list in insertion order with
  distinct keys. \<^verbatim>\<open>d[k] = v\<close> is \<^const>\<open>AList.update\<close>: the value of an
  existing key is replaced in place, a new key goes to the end. \<^verbatim>\<open>{**a, **b}\<close>
  inserts the items of \<open>a\<close>, then those of \<open>b\<close>, into a new dictionary.
\<close>

type_synonym pydict = "(string \<times> pyval) list"

definition dict_of_items :: "(string \<times> pyval) list \<Rightarrow> pydict" where
  "dict_of_items xs = fold (\<lambda>(k, v). AList.update k v) xs []"

definition dict_merge :: "pydict \<Rightarrow> pydict \<Rightarrow> pydict" where
  "dict_merge a b = dict_of_items (a @ b)"

text \<open>\<^verbatim>\<open>d.get(k)\<close>: the value, or \<^verbatim>\<open>None\<close> for a missing key.\<close>

definition dict_get :: "pydict \<Rightarrow> string \<Rightarrow> pyval" where
  "dict_get d k = (case map_of d k of None \<Rightarrow> PyNone | Some v \<Rightarrow> v)"

text \<open>
  \<^verbatim>\<open>posixpath.join(a, b)\<close> for two components: an absolute second component
  replaces the first; otherwise the two are joined by one slash, which is left out
  when the first is empty or already ends in a slash.
\<close>

definition path_join :: "string \<Rightarrow> string \<Rightarrow> string" where
  "path_join a b =
     (if startswith ''/'' b then b
      else if a = [] \<or> endswith ''/'' a then a @ b
      else a @ ''/'' @ b)"

text \<open>
  \<^verbatim>\<open>list(set(xs))\<close> lists the distinct elements of \<open>xs\<close> in the iteration order
  of a hash set, which the language does not fix. The model takes that order as a
  function \<open>set_iter\<close>; \<open>py_set_iter\<close> says what every such function satisfies.
\<close>

definition py_set_iter :: "(string list \<Rightarrow> string list) \<Rightarrow> bool" where
  "py_set_iter set_iter = (\<forall>xs. distinct (set_iter xs) \<and> set (set_iter xs) = set xs)"

subsection \<open>The object\<close>

text \<open>
  The classes of the module; \<open>cls\<close> of an object is \<^verbatim>\<open>type(self)\<close>.
  \<^verbatim>\<open>StatusCompiler\<close> derives from \<^verbatim>\<open>Status\<close>, every other class from
  \<^verbatim>\<open>Process\<close>.
\<close>

datatype pclass =
    Process | Status | Init
  | IntegrityCoverage | SeqTyping | PathoTyping | CheckCoverage | FastQC | Trimmomatic
  | FastqcTrimmomatic | Skesa | Spades | ProcessSpades | AssemblyMapping | Pilon | Mlst
  | Abricate | Prokka | Chewbbaca | TraceCompiler | StatusCompiler

text \<open>
  The instance attributes. \<open>u_output_channel\<close> is the attribute
  \<^verbatim>\<open>_output_channel\<close>, which \<^verbatim>\<open>set_secondary_channel\<close> reads and no statement of
  the module assigns: \<open>None\<close> says that the object has no such attribute, so that
  reading it raises \<^verbatim>\<open>AttributeError\<close>. \<open>u_main_in_str\<close> is \<^verbatim>\<open>_main_in_str\<close>,
  which only \<^verbatim>\<open>IntegrityCoverage\<close> assigns. A list of two-key dictionaries
  (\<open>link_end\<close>, \<open>secondary_inputs\<close>) is a list of pairs, in the order
  (\<^verbatim>\<open>link\<close>, \<^verbatim>\<open>alias\<close>) and (\<^verbatim>\<open>params\<close>, \<^verbatim>\<open>channel\<close>).
\<close>

record process =
  cls :: pclass
  pid :: pyval
  template :: string
  u_template_path :: "string option"
  input_type :: "string option"
  output_type :: "string option"
  ignore_type :: bool
  ignore_pid :: bool
  dependencies :: "string list"
  lane :: pyval
  parent_lane :: pyval
  input_channel :: "string option"
  output_channel :: "string option"
  input_user_channel :: "pydict option"
  link_start :: "string list option"
  link_end :: "(string \<times> string) list"
  status_channels :: "string list"
  status_strs :: "string list"
  forks :: "string list"
  main_forks :: "string list"
  secondary_inputs :: "(string \<times> string) list"
  secondary_input_str :: string
  u_context :: "pydict option"
  u_output_channel :: "string option"
  u_main_in_str :: "string option"

text \<open>The attributes as \<^verbatim>\<open>Process.__init__\<close> assigns them.\<close>

definition new_process :: "pclass \<Rightarrow> string \<Rightarrow> process" where
  "new_process c tpl =
     \<lparr> cls = c, pid = PyNone, template = tpl, u_template_path = None,
       input_type = None, output_type = None, ignore_type = False, ignore_pid = False,
       dependencies = [], lane = PyNone, parent_lane = PyNone,
       input_channel = None, output_channel = None, input_user_channel = None,
       link_start = Some [], link_end = [], status_channels = [''STATUS''],
       status_strs = [], forks = [], main_forks = [],
       secondary_inputs = [], secondary_input_str = [],
       u_context = None, u_output_channel = None, u_main_in_str = None \<rparr>"

text \<open>
  \<^verbatim>\<open>_set_template\<close>. \<open>here\<close> is \<^verbatim>\<open>dirname(abspath(__file__))\<close>, the directory
  of the module, and \<open>exists\<close> is \<^verbatim>\<open>os.path.exists\<close>: both belong to the file
  system the program runs on and are parameters.
\<close>

definition u_set_template ::
  "string \<Rightarrow> (string \<Rightarrow> bool) \<Rightarrow> process \<Rightarrow> string \<Rightarrow> pyerror + process" where
  "u_set_template here exists self tpl =
     (let tpl_dir = path_join here ''templates'';
          tpl_path = path_join tpl_dir (tpl @ ''.nf'')
      in if \<not> exists tpl_path
         then Inl (MissingTemplate (''Template '' @ tpl_path @ '' does not exist''))
         else Inr (self\<lparr>u_template_path := Some (path_join tpl_dir (tpl @ ''.nf''))\<rparr>))"

text \<open>
  \<^verbatim>\<open>Process.__init__\<close>: the call of \<^verbatim>\<open>_set_template\<close> either raises, and no
  object is made, or sets the path; the other assignments are those of
  \<^const>\<open>new_process\<close>.
\<close>

definition Process_init ::
  "string \<Rightarrow> (string \<Rightarrow> bool) \<Rightarrow> pclass \<Rightarrow> string \<Rightarrow> pyerror + process" where
  "Process_init here exists c tpl = u_set_template here exists (new_process c tpl) tpl"

text \<open>
  What the \<^verbatim>\<open>__init__\<close> of each class assigns after \<^verbatim>\<open>super().__init__\<close> has
  returned.
\<close>

definition genome_size_cov :: "(string \<times> string) list" where
  "genome_size_cov =
     [(''genomeSize'', ''IN_genome_size = Channel.value(params.genomeSize)''),
      (''minCoverage'', ''IN_min_coverage = Channel.value(params.minCoverage)'')]"

definition trim_opts :: "string \<times> string" where
  "trim_opts =
     (''trimOpts'',
      ''IN_trimmomatic_opts = Channel.value([params.trimSlidingWindow,''
        @ ''params.trimLeading,params.trimTrailing,params.trimMinLength])'')"

fun subclass_init :: "pclass \<Rightarrow> process \<Rightarrow> process" where
  "subclass_init Process self = self"
| "subclass_init Status self = self"
| "subclass_init Init self =
     self\<lparr>input_type := None, output_type := Some ''raw'', status_channels := []\<rparr>"
| "subclass_init IntegrityCoverage self =
     self\<lparr>input_type := Some ''fastq'', output_type := Some ''fastq'',
          u_main_in_str := Some ''MAIN_raw'', secondary_inputs := genome_size_cov,
          link_start := map_option (\<lambda>l. l @ [''SIDE_phred'', ''SIDE_max_len'']) (link_start self)\<rparr>"
| "subclass_init SeqTyping self =
     self\<lparr>input_type := Some ''fastq'', output_type := None,
          ignore_type := True, ignore_pid := True, status_channels := [],
          link_start := None,
          link_end := link_end self @ [(''MAIN_raw'', ''SIDE_SeqType_raw'')]\<rparr>"
| "subclass_init PathoTyping self =
     self\<lparr>input_type := Some ''fastq'', output_type := None,
          ignore_type := True, ignore_pid := True, status_channels := [],
          secondary_inputs :=
            [(''pathoSpecies'', ''IN_pathoSpecies = Channel.value(params.pathoSpecies)'')],
          link_start := None,
          link_end := link_end self @ [(''MAIN_raw'', ''SIDE_PathoType_raw'')]\<rparr>"
| "subclass_init CheckCoverage self =
     self\<lparr>input_type := Some ''fastq'', output_type := Some ''fastq'',
          secondary_inputs := genome_size_cov,
          link_start := map_option (\<lambda>l. l @ [''SIDE_max_len'']) (link_start self)\<rparr>"
| "subclass_init FastQC self =
     self\<lparr>input_type := Some ''fastq'', output_type := Some ''fastq'',
          status_channels := [''STATUS_fastqc'', ''STATUS_report''],
          secondary_inputs := [(''adapters'', ''IN_adapters = Channel.value(params.adapters)'')]\<rparr>"
| "subclass_init Trimmomatic self =
     self\<lparr>input_type := Some ''fastq'', output_type := Some ''fastq'',
          link_end := link_end self @ [(''SIDE_phred'', ''SIDE_phred'')],
          secondary_inputs := [trim_opts]\<rparr>"
| "subclass_init FastqcTrimmomatic self =
     self\<lparr>input_type := Some ''fastq'', output_type := Some ''fastq'',
          link_end := link_end self @ [(''SIDE_phred'', ''SIDE_phred'')],
          status_channels := [''STATUS_fastqc'', ''STATUS_report'', ''STATUS_trim''],
          secondary_inputs :=
            [(''adapters'', ''IN_adapters = Channel.value(params.adapters)''), trim_opts]\<rparr>"
| "subclass_init Skesa self =
     self\<lparr>input_type := Some ''fastq'', output_type := Some ''assembly''\<rparr>"
| "subclass_init Spades self =
     self\<lparr>input_type := Some ''fastq'', output_type := Some ''assembly'',
          link_end := link_end self @ [(''SIDE_max_len'', ''SIDE_max_len'')],
          secondary_inputs :=
            [(''spadesOpts'',
              ''IN_spades_opts = Channel.value([params.spadesMinCoverage,''
                @ ''params.spadesMinKmerCoverage])''),
             (''spadesKmers'', ''IN_spades_kmers = Channel.value(params.spadesKmers)'')]\<rparr>"
| "subclass_init ProcessSpades self =
     self\<lparr>input_type := Some ''assembly'', output_type := Some ''assembly'',
          secondary_inputs :=
            [(''processSpadesOpts'',
              ''IN_process_spades_opts = Channel.value([params.spadesMinContigLen,''
                @ ''params.spadesMinKmerCoverage,params.spadesMaxContigs])'')]\<rparr>"
| "subclass_init AssemblyMapping self =
     self\<lparr>input_type := Some ''assembly'', output_type := Some ''assembly'',
          status_channels := [''STATUS_am'', ''STATUS_amp''],
          link_start := map_option (\<lambda>l. l @ [''SIDE_BpCoverage'']) (link_start self),
          link_end := link_end self @ [(''MAIN_fq'', ''_MAIN_assembly'')],
          secondary_inputs :=
            [(''assemblyMappingOpts'',
              ''IN_assembly_mapping_opts = Channel.value([params.minAssemblyCoverage,''
                @ ''params.AMaxContigs])'')]\<rparr>"
| "subclass_init Pilon self =
     self\<lparr>input_type := Some ''assembly'', output_type := Some ''assembly'',
          dependencies := [''assembly_mapping''],
          link_end := link_end self @ [(''SIDE_BpCoverage'', ''SIDE_BpCoverage'')]\<rparr>"
| "subclass_init Mlst self =
     self\<lparr>input_type := Some ''assembly'', output_type := Some ''assembly''\<rparr>"
| "subclass_init Abricate self =
     self\<lparr>input_type := Some ''assembly'', output_type := None, ignore_type := True,
          link_start := None,
          link_end := link_end self @ [(''MAIN_assembly'', ''MAIN_assembly'')]\<rparr>"
| "subclass_init Prokka self =
     self\<lparr>input_type := Some ''assembly'', output_type := None, ignore_type := True,
          link_start := None,
          link_end := link_end self @ [(''MAIN_assembly'', ''MAIN_assembly'')]\<rparr>"
| "subclass_init Chewbbaca self =
     self\<lparr>input_type := Some ''assembly'', output_type := None, ignore_type := True,
          link_start := None,
          link_end := link_end self @ [(''MAIN_assembly'', ''MAIN_assembly'')]\<rparr>"
| "subclass_init TraceCompiler self = self\<lparr>link_start := None, ignore_type := True\<rparr>"
| "subclass_init StatusCompiler self = self\<lparr>ignore_type := True, link_start := None\<rparr>"

text \<open>\<^verbatim>\<open>C(template=tpl)\<close> for a class \<open>C\<close> of the module.\<close>

definition construct ::
  "string \<Rightarrow> (string \<Rightarrow> bool) \<Rightarrow> pclass \<Rightarrow> string \<Rightarrow> pyerror + process" where
  "construct here exists c tpl =
     (case Process_init here exists c tpl of
        Inl e \<Rightarrow> Inl e
      | Inr self \<Rightarrow> Inr (subclass_init c self))"

subsection \<open>The methods of \<^verbatim>\<open>Process\<close>\<close>

text \<open>
  A method that cannot raise returns the updated object. A method that can raise
  returns \<open>Inr\<close> of the updated object, or \<open>Inl\<close> of the exception together with
  the object as the statements before the \<^verbatim>\<open>raise\<close> left it.
\<close>

definition set_main_channel_names :: "process \<Rightarrow> pyval \<Rightarrow> pyval \<Rightarrow> pyval \<Rightarrow> process" where
  "set_main_channel_names self input_suffix output_suffix ln =
     self\<lparr>input_channel := Some (template self @ ''_in_'' @ py_str input_suffix),
          output_channel := Some (template self @ ''_out_'' @ py_str output_suffix),
          lane := ln\<rparr>"


text \<open>
  \<^verbatim>\<open>set_channels(**kwargs)\<close>: the position index, the status strings, the fork of
  the main output into \<open>main_forks\<close>, and a new context.
\<close>

definition set_channels :: "process \<Rightarrow> (string \<times> pyval) list \<Rightarrow> process" where
  "set_channels self kwargs_items =
     (let kwargs = dict_of_items kwargs_items;
          self1 = self\<lparr>pid := dict_get kwargs ''pid''\<rparr>;
          self2 = self1\<lparr>status_strs := status_strs self1
                    @ map (\<lambda>i. i @ ''_'' @ py_str (pid self1)) (status_channels self1)\<rparr>;
          self3 =
            (if main_forks self2 \<noteq> [] then
               (let operator = (if length (main_forks self2) = 1 then ''set'' else ''into'')
                in self2\<lparr>forks := forks self2
                     @ [nl @ py_str (opt_val (output_channel self2)) @ ''.'' @ operator
                        @ ''{ '' @ join '';'' (main_forks self2) @ '' }'' @ nl]\<rparr>)
             else self2)
      in self3\<lparr>u_context := Some (dict_merge kwargs
           [(''input_channel'', opt_val (input_channel self3)),
            (''output_channel'', opt_val (output_channel self3)),
            (''template'', PyStr (template self3)),
            (''forks'', PyStr (join nl (forks self3)))])\<rparr>)"

definition update_main_forks :: "process \<Rightarrow> string \<Rightarrow> process" where
  "update_main_forks self sink = self\<lparr>main_forks := main_forks self @ [sink]\<rparr>"

text \<open>
  \<^verbatim>\<open>set_secondary_channel\<close>. In the branch of a main source the right-hand side
  \<^verbatim>\<open>self._output_channel\<close> is evaluated first, then the subscript assignment into
  \<^verbatim>\<open>self._context\<close>; \<^verbatim>\<open>channel_list.append\<close> extends the list that the rest of the
  method reads. The last statement unpacks \<^verbatim>\<open>self._context\<close>, after the fork has
  been appended.
\<close>

definition set_secondary_channel ::
  "(string list \<Rightarrow> string list) \<Rightarrow> process \<Rightarrow> string \<Rightarrow> string list
     \<Rightarrow> (pyerror \<times> process) + process" where
  "set_secondary_channel set_iter self source channel_list =
     (case
        (if startswith ''MAIN'' source then
           (case u_output_channel self of
              None \<Rightarrow> Inl (AttributeError ''_output_channel'', self)
            | Some oc \<Rightarrow>
                (case u_context self of
                   None \<Rightarrow> Inl (TypeError, self)
                 | Some ctx \<Rightarrow>
                     Inr (self\<lparr>u_context :=
                                 Some (AList.update ''output_channel'' (PyStr (''_'' @ oc)) ctx)\<rparr>,
                          ''_'' @ oc,
                          channel_list @ [oc])))
         else Inr (self, source @ ''_'' @ py_str (pid self), channel_list))
      of
        Inl e \<Rightarrow> Inl e
      | Inr (self1, source1, channel_list1) \<Rightarrow>
          (let channel_list2 = set_iter channel_list1;
               self2 =
                 (if length channel_list2 = 1 then
                    self1\<lparr>forks := forks self1
                      @ [nl @ source1 @ ''.set{ '' @ channel_list2 ! 0 @ '' }'' @ nl]\<rparr>
                  else
                    self1\<lparr>forks := forks self1
                      @ [nl @ source1 @ ''.into{ '' @ join '';'' channel_list2 @ '' }'' @ nl]\<rparr>)
           in (case u_context self2 of
                 None \<Rightarrow> Inl (TypeError, self2)
               | Some ctx \<Rightarrow>
                   Inr (self2\<lparr>u_context :=
                     Some (dict_merge ctx [(''forks'', PyStr (join nl (forks self2)))])\<rparr>))))"

subsection \<open>The methods of \<^verbatim>\<open>Status\<close> and \<^verbatim>\<open>Init\<close>\<close>

text \<open>
  \<^verbatim>\<open>Status.set_status_channels\<close>. With an empty list the \<^verbatim>\<open>else\<close> branch reads
  \<^verbatim>\<open>channel_list[0]\<close> and raises \<^verbatim>\<open>IndexError\<close>.
\<close>

definition set_status_channels :: "process \<Rightarrow> string list \<Rightarrow> (pyerror \<times> process) + process" where
  "set_status_channels self channel_list =
     (if length channel_list = 1 then
        Inr (self\<lparr>u_context := Some [(''status_channels'', PyStr (channel_list ! 0))]\<rparr>)
      else
        (case channel_list of
           [] \<Rightarrow> Inl (IndexError, self)
         | first_status # rest \<Rightarrow>
             (let lst = join '','' rest;
                  s = first_status @ ''.mix('' @ lst @ '')''
              in Inr (self\<lparr>u_context := Some [(''status_channels'', PyStr s)]\<rparr>))))"

text \<open>
  A value of the dictionary given to \<^verbatim>\<open>Init.set_raw_inputs\<close>, with the three keys
  the method reads.
\<close>

record raw_input =
  channel :: string
  channel_str :: string
  raw_forks :: "string list"

text \<open>
  The loop of \<^verbatim>\<open>set_raw_inputs\<close> over \<^verbatim>\<open>raw_input.values()\<close>; it carries
  \<^verbatim>\<open>primary_inputs\<close> and \<^verbatim>\<open>self.forks\<close>.
\<close>

fun raw_inputs_loop ::
  "raw_input list \<Rightarrow> string list \<Rightarrow> string list \<Rightarrow> string list \<times> string list" where
  "raw_inputs_loop [] primary_inputs fks = (primary_inputs, fks)"
| "raw_inputs_loop (el # els) primary_inputs fks =
     raw_inputs_loop els (primary_inputs @ [channel_str el])
       (if length (raw_forks el) = 1 then
          fks @ [nl @ channel el @ ''.set{ '' @ raw_forks el ! 0 @ '' }'' @ nl]
        else
          fks @ [nl @ channel el @ ''.into{ '' @ join '';'' (raw_forks el) @ '' }'' @ nl])"

definition set_raw_inputs ::
  "process \<Rightarrow> (string \<times> raw_input) list \<Rightarrow> (pyerror \<times> process) + process" where
  "set_raw_inputs self raw_input_items =
     (case raw_inputs_loop (map snd raw_input_items) [] (forks self) of
        (primary_inputs, fks) \<Rightarrow>
          (let self1 = self\<lparr>forks := fks\<rparr>
           in (case u_context self1 of
                 None \<Rightarrow> Inl (TypeError, self1)
               | Some ctx \<Rightarrow>
                   Inr (self1\<lparr>u_context :=
                     Some (dict_merge ctx
                       [(''forks'', PyStr (join nl (forks self1))),
                        (''main_inputs'', PyStr (join nl primary_inputs))])\<rparr>))))"

definition set_secondary_inputs ::
  "process \<Rightarrow> (string \<times> string) list \<Rightarrow> (pyerror \<times> process) + process" where
  "set_secondary_inputs self channel_dict =
     (let secondary_input_str = join nl (map snd channel_dict)
      in (case u_context self of
            None \<Rightarrow> Inl (TypeError, self)
          | Some ctx \<Rightarrow>
              Inr (self\<lparr>u_context :=
                Some (dict_merge ctx [(''secondary_inputs'', PyStr secondary_input_str)])\<rparr>)))"

subsection \<open>Method calls on an object\<close>

text \<open>
  A call \<^verbatim>\<open>obj.m(...)\<close> of one of the state-changing methods. A method that the
  class of the object does not define raises \<^verbatim>\<open>AttributeError\<close>:
  \<^verbatim>\<open>set_status_channels\<close> belongs to \<^verbatim>\<open>Status\<close> and \<^verbatim>\<open>StatusCompiler\<close>,
  \<^verbatim>\<open>set_raw_inputs\<close> and \<^verbatim>\<open>set_secondary_inputs\<close> to \<^verbatim>\<open>Init\<close>.
\<close>

datatype mcall =
    SetMainChannelNames pyval pyval pyval
  | SetChannels "(string \<times> pyval) list"
  | UpdateMainForks string
  | SetSecondaryChannel string "string list"
  | SetStatusChannels "string list"
  | SetRawInputs "(string \<times> raw_input) list"
  | SetSecondaryInputs "(string \<times> string) list"

fun call ::
  "(string list \<Rightarrow> string list) \<Rightarrow> process \<Rightarrow> mcall \<Rightarrow> (pyerror \<times> process) + process" where
  "call set_iter self (SetMainChannelNames i o' l) = Inr (set_main_channel_names self i o' l)"
| "call set_iter self (SetChannels kwargs) = Inr (set_channels self kwargs)"
| "call set_iter self (UpdateMainForks sink) = Inr (update_main_forks self sink)"
| "call set_iter self (SetSecondaryChannel source channel_list) =
     set_secondary_channel set_iter self source channel_list"
| "call set_iter self (SetStatusChannels channel_list) =
     (if cls self = Status \<or> cls self = StatusCompiler
      then set_status_channels self channel_list
      else Inl (AttributeError ''set_status_channels'', self))"
| "call set_iter self (SetRawInputs raw) =
     (if cls self = Init then set_raw_inputs self raw
      else Inl (AttributeError ''set_raw_inputs'', self))"
| "call set_iter self (SetSecondaryInputs channel_dict) =
     (if cls self = Init then set_secondary_inputs self channel_dict
      else Inl (AttributeError ''set_secondary_inputs'', self))"

text \<open>The object after a call, whether the call returned or raised.\<close>

definition after_call :: "(string list \<Rightarrow> string list) \<Rightarrow> process \<Rightarrow> mcall \<Rightarrow> process" where
  "after_call set_iter self m =
     (case call set_iter self m of Inl (e, self') \<Rightarrow> self' | Inr self' \<Rightarrow> self')"


section \<open>Properties\<close>

subsection \<open>Dictionaries, formatting and the set order\<close>

lemma fold_update_map_of:
  "map_of (fold (\<lambda>(k, v). AList.update k v) xs acc) = map_of acc ++ map_of (rev xs)"
proof (induction xs arbitrary: acc)
  case Nil
  show ?case by simp
next
  case (Cons x xs)
  obtain k v where x: "x = (k, v)" by (cases x)
  show ?case
    by (auto simp add: x Cons.IH update_conv' fun_eq_iff map_add_def split: option.splits)
qed

lemma map_of_dict_of_items: "map_of (dict_of_items xs) = map_of (rev xs)"
  by (simp add: dict_of_items_def fold_update_map_of)

lemma update_not_Nil: "AList.update k v al \<noteq> []"
  by (cases al) auto

lemma dict_of_items_not_Nil: "xs \<noteq> [] \<Longrightarrow> dict_of_items xs \<noteq> []"
proof (induction xs rule: rev_induct)
  case Nil
  then show ?case by simp
next
  case (snoc x xs)
  obtain k v where x: "x = (k, v)" by (cases x)
  show ?case by (simp add: dict_of_items_def x update_not_Nil)
qed

lemma str_int_digit: "0 \<le> i \<Longrightarrow> i < 10 \<Longrightarrow> str_int i = [digit_char (nat i)]"
  by (simp add: str_int_def str_nat.simps)

text \<open>A one-element list has one iteration order.\<close>

lemma py_set_iter_single:
  assumes "py_set_iter f"
  shows "f [x] = [x]"
proof -
  from assms have d: "distinct (f [x])" and s: "set (f [x]) = {x}"
    by (simp_all add: py_set_iter_def)
  show ?thesis
  proof (cases "f [x]")
    case Nil
    with s show ?thesis by simp
  next
    case (Cons y ys)
    with s d have "y = x" and "set ys \<subseteq> {x}" and "y \<notin> set ys" by auto
    then have "ys = []" by (cases ys) auto
    with Cons \<open>y = x\<close> show ?thesis by simp
  qed
qed

lemma py_set_iter_remdups: "py_set_iter remdups"
  by (simp add: py_set_iter_def)

subsection \<open>Status channels\<close>

text \<open>
  Claim C6. \<^verbatim>\<open>set_channels\<close> appends to the status strings, for every name of
  \<open>status_channels\<close> and in their order, the name followed by an underscore and the
  position index given under \<^verbatim>\<open>pid\<close>. On a new \<^verbatim>\<open>Process\<close> with index 5 the
  status strings are \<^verbatim>\<open>["STATUS_5"]\<close>, on a new \<^verbatim>\<open>FastQC\<close> with index 2 they
  are \<^verbatim>\<open>["STATUS_fastqc_2", "STATUS_report_2"]\<close>.
\<close>

theorem set_channels_status_strs:
  "status_strs (set_channels d kw)
     = status_strs d
       @ map (\<lambda>b. b @ ''_'' @ py_str (dict_get (dict_of_items kw) ''pid'')) (status_channels d)
   \<and> (construct here ex Process tpl = Inr p \<longrightarrow>
        status_strs (set_channels p [(''pid'', PyInt 5)]) = [''STATUS_5''])
   \<and> (construct here ex FastQC tpl = Inr q \<longrightarrow>
        status_strs (set_channels q [(''pid'', PyInt 2)])
          = [''STATUS_fastqc_2'', ''STATUS_report_2''])"
  by (auto simp add: set_channels_def Let_def construct_def Process_init_def u_set_template_def
      new_process_def dict_get_def dict_of_items_def str_int_digit digit_char_def
      split: if_splits)

theorem set_channels_status_strs_witness:
  "construct ''/pkg'' (\<lambda>p. True) Process ''skesa''
     = Inr ((new_process Process ''skesa'')\<lparr>u_template_path := Some ''/pkg/templates/skesa.nf''\<rparr>)
   \<and> status_strs (set_channels
        ((new_process Process ''skesa'')\<lparr>u_template_path := Some ''/pkg/templates/skesa.nf''\<rparr>)
        [(''pid'', PyInt 5)]) = [''STATUS_5'']
   \<and> construct ''/pkg'' (\<lambda>p. True) FastQC ''fastqc''
     = Inr (subclass_init FastQC
         ((new_process FastQC ''fastqc'')\<lparr>u_template_path := Some ''/pkg/templates/fastqc.nf''\<rparr>))
   \<and> status_strs (set_channels
        (subclass_init FastQC
          ((new_process FastQC ''fastqc'')\<lparr>u_template_path := Some ''/pkg/templates/fastqc.nf''\<rparr>))
        [(''pid'', PyInt 2)]) = [''STATUS_fastqc_2'', ''STATUS_report_2'']"
proof -
  have a: "construct ''/pkg'' (\<lambda>p. True) Process ''skesa''
     = Inr ((new_process Process ''skesa'')\<lparr>u_template_path := Some ''/pkg/templates/skesa.nf''\<rparr>)"
    by (simp add: construct_def Process_init_def u_set_template_def path_join_def
        startswith_def endswith_def)
  have b: "construct ''/pkg'' (\<lambda>p. True) FastQC ''fastqc''
     = Inr (subclass_init FastQC
         ((new_process FastQC ''fastqc'')\<lparr>u_template_path := Some ''/pkg/templates/fastqc.nf''\<rparr>))"
    by (simp add: construct_def Process_init_def u_set_template_def path_join_def
        startswith_def endswith_def)
  from a set_channels_status_strs [where here = "''/pkg''" and ex = "\<lambda>p. True"
      and tpl = "''skesa''"
      and p = "(new_process Process ''skesa'')\<lparr>u_template_path := Some ''/pkg/templates/skesa.nf''\<rparr>"]
  have c: "status_strs (set_channels
        ((new_process Process ''skesa'')\<lparr>u_template_path := Some ''/pkg/templates/skesa.nf''\<rparr>)
        [(''pid'', PyInt 5)]) = [''STATUS_5'']"
    by blast
  from b set_channels_status_strs [where here = "''/pkg''" and ex = "\<lambda>p. True"
      and tpl = "''fastqc''"
      and q = "subclass_init FastQC
         ((new_process FastQC ''fastqc'')\<lparr>u_template_path := Some ''/pkg/templates/fastqc.nf''\<rparr>)"]
  have d: "status_strs (set_channels
        (subclass_init FastQC
          ((new_process FastQC ''fastqc'')\<lparr>u_template_path := Some ''/pkg/templates/fastqc.nf''\<rparr>))
        [(''pid'', PyInt 2)]) = [''STATUS_fastqc_2'', ''STATUS_report_2'']"
    by blast
  from a b c d show ?thesis by blast
qed

text \<open>
  Claim C7. \<^verbatim>\<open>set_status_channels\<close> with \<^verbatim>\<open>["STATUS_1"]\<close> makes the context
  \<^verbatim>\<open>{"status_channels": "STATUS_1"}\<close>; with three names it is
  \<^verbatim>\<open>"STATUS_1.mix(STATUS_2,STATUS_3)"\<close>. For every list of more than one name the
  value is the first name, \<^verbatim>\<open>.mix(\<close>, the other names joined by commas in their
  order, and \<^verbatim>\<open>)\<close>; for a list of one name it is that name.
\<close>

theorem set_status_channels_mix:
  "map_sum fst u_context (set_status_channels d [''STATUS_1''])
     = Inr (Some [(''status_channels'', PyStr ''STATUS_1'')])
   \<and> map_sum fst u_context (set_status_channels d [''STATUS_1'', ''STATUS_2'', ''STATUS_3''])
     = Inr (Some [(''status_channels'', PyStr ''STATUS_1.mix(STATUS_2,STATUS_3)'')])
   \<and> (1 < length cl \<longrightarrow>
        set_status_channels d cl
          = Inr (d\<lparr>u_context := Some [(''status_channels'',
                   PyStr (hd cl @ ''.mix('' @ join '','' (tl cl) @ '')''))]\<rparr>))
   \<and> set_status_channels d [c]
          = Inr (d\<lparr>u_context := Some [(''status_channels'', PyStr c)]\<rparr>)"
  by (cases cl) (simp_all add: set_status_channels_def)

theorem set_status_channels_mix_witness:
  "1 < length [''a'', ''b'', ''c'']
   \<and> set_status_channels (new_process StatusCompiler ''status_compiler'') [''a'', ''b'', ''c'']
       = Inr ((new_process StatusCompiler ''status_compiler'')
                \<lparr>u_context := Some [(''status_channels'', PyStr ''a.mix(b,c)'')]\<rparr>)"
  using set_status_channels_mix
    [of "new_process StatusCompiler ''status_compiler''" "[''a'', ''b'', ''c'']"]
  by simp

subsection \<open>Forks of the main output\<close>

lemma main_forks_foldl: "main_forks (foldl update_main_forks d sinks) = main_forks d @ sinks"
  by (induction sinks arbitrary: d) (simp_all add: update_main_forks_def)

lemma forks_foldl: "forks (foldl update_main_forks d sinks) = forks d"
  by (induction sinks arbitrary: d) (simp_all add: update_main_forks_def)

lemma output_channel_foldl:
  "output_channel (foldl update_main_forks d sinks) = output_channel d"
  by (induction sinks arbitrary: d) (simp_all add: update_main_forks_def)

text \<open>
  Claim C3. With one destination in \<open>main_forks\<close>, \<^verbatim>\<open>set_channels\<close> appends the
  statement \<^verbatim>\<open>"\n<output_channel>.set{ <dest> }\n"\<close> to the forks; with two or more
  it appends \<^verbatim>\<open>"\n<output_channel>.into{ <dest1>;<dest2>;... }\n"\<close>, the destinations
  joined by semicolons; with none the forks stay as they are. A sequence of
  \<^verbatim>\<open>update_main_forks\<close> calls appends its sinks to \<open>main_forks\<close> in the order of the
  calls and changes neither the forks nor the output channel. The output channel is
  written as the format string writes the attribute (\<^verbatim>\<open>None\<close> when it is unset).
\<close>

theorem set_channels_main_forks:
  "(main_forks d = [dest] \<longrightarrow>
      forks (set_channels d kw)
        = forks d @ [nl @ py_str (opt_val (output_channel d)) @ ''.set{ '' @ dest @ '' }'' @ nl])
   \<and> (2 \<le> length (main_forks d) \<longrightarrow>
      forks (set_channels d kw)
        = forks d @ [nl @ py_str (opt_val (output_channel d)) @ ''.into{ ''
                     @ join '';'' (main_forks d) @ '' }'' @ nl])
   \<and> (main_forks d = [] \<longrightarrow> forks (set_channels d kw) = forks d)
   \<and> main_forks (foldl update_main_forks d sinks) = main_forks d @ sinks
   \<and> forks (foldl update_main_forks d sinks) = forks d
   \<and> output_channel (foldl update_main_forks d sinks) = output_channel d"
  by (auto simp add: set_channels_def Let_def main_forks_foldl forks_foldl output_channel_foldl)

theorem set_channels_main_forks_witness:
  "main_forks (update_main_forks
      (set_main_channel_names (new_process Spades ''spades'') (PyInt 3) (PyInt 4) (PyInt 1))
      ''pilon_in_4'') = [''pilon_in_4'']
   \<and> forks (set_channels (update_main_forks
      (set_main_channel_names (new_process Spades ''spades'') (PyInt 3) (PyInt 4) (PyInt 1))
      ''pilon_in_4'') [(''pid'', PyInt 3)])
     = [nl @ ''spades_out_4.set{ pilon_in_4 }'' @ nl]
   \<and> 2 \<le> length (main_forks (foldl update_main_forks
      (set_main_channel_names (new_process Spades ''spades'') (PyInt 3) (PyInt 4) (PyInt 1))
      [''a'', ''b'', ''c'']))
   \<and> forks (set_channels (foldl update_main_forks
      (set_main_channel_names (new_process Spades ''spades'') (PyInt 3) (PyInt 4) (PyInt 1))
      [''a'', ''b'', ''c'']) [(''pid'', PyInt 3)])
     = [nl @ ''spades_out_4.into{ a;b;c }'' @ nl]
   \<and> main_forks (new_process Spades ''spades'') = []
   \<and> forks (set_channels (new_process Spades ''spades'') [(''pid'', PyInt 3)]) = []"
  using
    set_channels_main_forks [of "update_main_forks
      (set_main_channel_names (new_process Spades ''spades'') (PyInt 3) (PyInt 4) (PyInt 1))
      ''pilon_in_4''" "''pilon_in_4''" "[(''pid'', PyInt 3)]" "[]"]
    set_channels_main_forks [of "foldl update_main_forks
      (set_main_channel_names (new_process Spades ''spades'') (PyInt 3) (PyInt 4) (PyInt 1))
      [''a'', ''b'', ''c'']" "''x''" "[(''pid'', PyInt 3)]" "[]"]
    set_channels_main_forks [of "new_process Spades ''spades''" "''x''"
      "[(''pid'', PyInt 3)]" "[]"]
  by (simp add: update_main_forks_def set_main_channel_names_def new_process_def
      str_int_digit digit_char_def)

text \<open>
  Claim C10. \<^verbatim>\<open>set_channels\<close> does not reset the lists it appends to. After a
  second call with the same position index, on an object whose \<open>main_forks\<close> is not
  empty, the status strings hold the position-qualified names twice after those that
  were there before the first call, the forks hold the statement of the main output
  twice, and the \<^verbatim>\<open>forks\<close> value of the context is the join of that longer list. The
  context itself is built anew from the keyword arguments of the second call.
\<close>

theorem set_channels_twice:
  "main_forks d \<noteq> [] \<and> dict_get (dict_of_items kw1) ''pid'' = dict_get (dict_of_items kw2) ''pid''
   \<longrightarrow>
     (status_strs (set_channels (set_channels d kw1) kw2)
        = status_strs d
          @ map (\<lambda>b. b @ ''_'' @ py_str (dict_get (dict_of_items kw2) ''pid'')) (status_channels d)
          @ map (\<lambda>b. b @ ''_'' @ py_str (dict_get (dict_of_items kw2) ''pid'')) (status_channels d)
      \<and> forks (set_channels (set_channels d kw1) kw2)
        = forks d
          @ [nl @ py_str (opt_val (output_channel d)) @ ''.''
               @ (if length (main_forks d) = 1 then ''set'' else ''into'')
               @ ''{ '' @ join '';'' (main_forks d) @ '' }'' @ nl,
             nl @ py_str (opt_val (output_channel d)) @ ''.''
               @ (if length (main_forks d) = 1 then ''set'' else ''into'')
               @ ''{ '' @ join '';'' (main_forks d) @ '' }'' @ nl]
      \<and> u_context (set_channels (set_channels d kw1) kw2)
        = Some (dict_merge (dict_of_items kw2)
            [(''input_channel'', opt_val (input_channel d)),
             (''output_channel'', opt_val (output_channel d)),
             (''template'', PyStr (template d)),
             (''forks'', PyStr (join nl (forks (set_channels (set_channels d kw1) kw2))))])
      \<and> map_of (the (u_context (set_channels (set_channels d kw1) kw2))) ''forks''
        = Some (PyStr (join nl (forks (set_channels (set_channels d kw1) kw2)))))"
  by (simp add: set_channels_def Let_def dict_merge_def map_of_dict_of_items)

theorem set_channels_twice_witness:
  "main_forks (update_main_forks
       (set_main_channel_names (subclass_init FastQC (new_process FastQC ''fastqc''))
          (PyInt 2) (PyInt 3) (PyInt 1)) ''trim_in_3'') \<noteq> []
   \<and> status_strs (set_channels (set_channels (update_main_forks
       (set_main_channel_names (subclass_init FastQC (new_process FastQC ''fastqc''))
          (PyInt 2) (PyInt 3) (PyInt 1)) ''trim_in_3'') [(''pid'', PyInt 2)]) [(''pid'', PyInt 2)])
     = [''STATUS_fastqc_2'', ''STATUS_report_2'', ''STATUS_fastqc_2'', ''STATUS_report_2'']
   \<and> forks (set_channels (set_channels (update_main_forks
       (set_main_channel_names (subclass_init FastQC (new_process FastQC ''fastqc''))
          (PyInt 2) (PyInt 3) (PyInt 1)) ''trim_in_3'') [(''pid'', PyInt 2)]) [(''pid'', PyInt 2)])
     = [nl @ ''fastqc_out_3.set{ trim_in_3 }'' @ nl, nl @ ''fastqc_out_3.set{ trim_in_3 }'' @ nl]
   \<and> map_of (the (u_context (set_channels (set_channels (update_main_forks
       (set_main_channel_names (subclass_init FastQC (new_process FastQC ''fastqc''))
          (PyInt 2) (PyInt 3) (PyInt 1)) ''trim_in_3'') [(''pid'', PyInt 2)]) [(''pid'', PyInt 2)])))
       ''forks''
     = Some (PyStr (nl @ ''fastqc_out_3.set{ trim_in_3 }'' @ nl @ nl
                    @ nl @ ''fastqc_out_3.set{ trim_in_3 }'' @ nl))"
proof -
  let ?d = "update_main_forks
       (set_main_channel_names (subclass_init FastQC (new_process FastQC ''fastqc''))
          (PyInt 2) (PyInt 3) (PyInt 1)) ''trim_in_3''"
  have h: "main_forks ?d \<noteq> []
      \<and> dict_get (dict_of_items [(''pid'', PyInt 2)]) ''pid''
        = dict_get (dict_of_items [(''pid'', PyInt 2)]) ''pid''"
    by (simp add: update_main_forks_def)
  have t: "status_strs (set_channels (set_channels ?d [(''pid'', PyInt 2)]) [(''pid'', PyInt 2)])
        = status_strs ?d
          @ map (\<lambda>b. b @ ''_'' @ py_str (dict_get (dict_of_items [(''pid'', PyInt 2)]) ''pid''))
              (status_channels ?d)
          @ map (\<lambda>b. b @ ''_'' @ py_str (dict_get (dict_of_items [(''pid'', PyInt 2)]) ''pid''))
              (status_channels ?d)
      \<and> forks (set_channels (set_channels ?d [(''pid'', PyInt 2)]) [(''pid'', PyInt 2)])
        = forks ?d
          @ [nl @ py_str (opt_val (output_channel ?d)) @ ''.''
               @ (if length (main_forks ?d) = 1 then ''set'' else ''into'')
               @ ''{ '' @ join '';'' (main_forks ?d) @ '' }'' @ nl,
             nl @ py_str (opt_val (output_channel ?d)) @ ''.''
               @ (if length (main_forks ?d) = 1 then ''set'' else ''into'')
               @ ''{ '' @ join '';'' (main_forks ?d) @ '' }'' @ nl]
      \<and> u_context (set_channels (set_channels ?d [(''pid'', PyInt 2)]) [(''pid'', PyInt 2)])
        = Some (dict_merge (dict_of_items [(''pid'', PyInt 2)])
            [(''input_channel'', opt_val (input_channel ?d)),
             (''output_channel'', opt_val (output_channel ?d)),
             (''template'', PyStr (template ?d)),
             (''forks'', PyStr (join nl (forks
                (set_channels (set_channels ?d [(''pid'', PyInt 2)]) [(''pid'', PyInt 2)]))))])
      \<and> map_of (the (u_context
            (set_channels (set_channels ?d [(''pid'', PyInt 2)]) [(''pid'', PyInt 2)]))) ''forks''
        = Some (PyStr (join nl (forks
            (set_channels (set_channels ?d [(''pid'', PyInt 2)]) [(''pid'', PyInt 2)]))))"
    by (rule mp [OF set_channels_twice h])
  have v: "status_strs ?d = []" "status_channels ?d = [''STATUS_fastqc'', ''STATUS_report'']"
    "forks ?d = []" "output_channel ?d = Some ''fastqc_out_3''" "main_forks ?d = [''trim_in_3'']"
    "py_str (dict_get (dict_of_items [(''pid'', PyInt 2)]) ''pid'') = ''2''"
    by (simp_all add: update_main_forks_def set_main_channel_names_def new_process_def
        dict_get_def dict_of_items_def str_int_digit digit_char_def)
  have s: "status_strs (set_channels (set_channels ?d [(''pid'', PyInt 2)]) [(''pid'', PyInt 2)])
      = [''STATUS_fastqc_2'', ''STATUS_report_2'', ''STATUS_fastqc_2'', ''STATUS_report_2'']"
    using t [THEN conjunct1] unfolding v by simp
  have f: "forks (set_channels (set_channels ?d [(''pid'', PyInt 2)]) [(''pid'', PyInt 2)])
      = [nl @ ''fastqc_out_3.set{ trim_in_3 }'' @ nl, nl @ ''fastqc_out_3.set{ trim_in_3 }'' @ nl]"
    using t [THEN conjunct2, THEN conjunct1] unfolding v by simp
  have c: "map_of (the (u_context
        (set_channels (set_channels ?d [(''pid'', PyInt 2)]) [(''pid'', PyInt 2)]))) ''forks''
      = Some (PyStr (nl @ ''fastqc_out_3.set{ trim_in_3 }'' @ nl @ nl
                    @ nl @ ''fastqc_out_3.set{ trim_in_3 }'' @ nl))"
    using t [THEN conjunct2, THEN conjunct2, THEN conjunct2] unfolding f by simp
  from h s f c show ?thesis by blast
qed

subsection \<open>Secondary channels\<close>

lemma set_channels_pid: "pid (set_channels d kw) = dict_get (dict_of_items kw) ''pid''"
  by (simp add: set_channels_def Let_def)

lemma set_channels_context: "\<exists>ctx. u_context (set_channels d kw) = Some ctx \<and> ctx \<noteq> []"
  by (simp add: set_channels_def Let_def dict_merge_def dict_of_items_not_Nil)

lemma distinct_count_list_one: "distinct xs \<Longrightarrow> x \<in> set xs \<Longrightarrow> count_list xs x = 1"
  by (induction xs) auto

text \<open>
  A source that is not a main channel, on an object that has a context: the call
  returns, with one statement more in the forks and the \<^verbatim>\<open>forks\<close> value of the
  context renewed.
\<close>

lemma set_secondary_channel_side:
  assumes "\<not> startswith ''MAIN'' source" and "u_context d = Some ctx"
  shows "set_secondary_channel f d source cl
    = Inr (d\<lparr>forks := forks d
              @ [nl @ source @ ''_'' @ py_str (pid d)
                 @ (if length (f cl) = 1 then ''.set{ '' @ f cl ! 0
                    else ''.into{ '' @ join '';'' (f cl)) @ '' }'' @ nl],
            u_context := Some (dict_merge ctx [(''forks'', PyStr (join nl (forks d
              @ [nl @ source @ ''_'' @ py_str (pid d)
                 @ (if length (f cl) = 1 then ''.set{ '' @ f cl ! 0
                    else ''.into{ '' @ join '';'' (f cl)) @ '' }'' @ nl])))])\<rparr>)"
  using assms by (simp add: set_secondary_channel_def Let_def)

text \<open>
  A main source: the method reads \<^verbatim>\<open>self._output_channel\<close>, which the object does
  not have, before it changes anything.
\<close>

lemma set_secondary_channel_main:
  assumes "startswith ''MAIN'' source" and "u_output_channel d = None"
  shows "set_secondary_channel f d source cl = Inl (AttributeError ''_output_channel'', d)"
  using assms by (simp add: set_secondary_channel_def)

text \<open>No constructor and no method gives an object the attribute.\<close>

lemma construct_u_output_channel:
  "construct here ex c tpl = Inr d \<Longrightarrow> u_output_channel d = None"
  by (cases c)
    (auto simp add: construct_def Process_init_def u_set_template_def new_process_def Let_def
      split: if_splits)

lemma call_u_output_channel:
  "u_output_channel (after_call f d m) = u_output_channel d"
proof (cases m)
  case (SetSecondaryChannel source cl)
  show ?thesis
    by (auto simp add: after_call_def SetSecondaryChannel set_secondary_channel_def Let_def
        split: option.splits sum.splits prod.splits if_splits)
next
  case (SetRawInputs raw)
  show ?thesis
    by (auto simp add: after_call_def SetRawInputs set_raw_inputs_def Let_def
        split: option.splits sum.splits prod.splits if_splits)
qed (auto simp add: after_call_def set_main_channel_names_def set_channels_def Let_def
      update_main_forks_def set_status_channels_def set_secondary_inputs_def
      split: option.splits sum.splits prod.splits if_splits list.splits)

text \<open>
  Claim C1. The claim says that a source beginning with \<^verbatim>\<open>MAIN\<close> renames the
  output channel of the context to \<^verbatim>\<open>_spades_out_3\<close> and forks it into the original
  name and the given destinations. On a \<^verbatim>\<open>Spades\<close> object whose output channel is
  \<^verbatim>\<open>spades_out_3\<close> and whose context has been set by \<^verbatim>\<open>set_channels\<close>, the call
  with source \<^verbatim>\<open>MAIN_2\<close> raises \<^verbatim>\<open>AttributeError\<close> and leaves the object as it was:
  the context still names \<^verbatim>\<open>spades_out_3\<close> and no fork has been added.
\<close>

theorem set_secondary_channel_main_2_raises:
  "construct ''/pkg'' (\<lambda>p. True) Spades ''spades''
     = Inr (subclass_init Spades
         ((new_process Spades ''spades'')\<lparr>u_template_path := Some ''/pkg/templates/spades.nf''\<rparr>))
   \<and> output_channel (set_channels (set_main_channel_names (subclass_init Spades
         ((new_process Spades ''spades'')\<lparr>u_template_path := Some ''/pkg/templates/spades.nf''\<rparr>))
         (PyInt 3) (PyInt 3) (PyInt 1)) [(''pid'', PyInt 3)]) = Some ''spades_out_3''
   \<and> map_of (the (u_context (set_channels (set_main_channel_names (subclass_init Spades
         ((new_process Spades ''spades'')\<lparr>u_template_path := Some ''/pkg/templates/spades.nf''\<rparr>))
         (PyInt 3) (PyInt 3) (PyInt 1)) [(''pid'', PyInt 3)]))) ''output_channel''
       = Some (PyStr ''spades_out_3'')
   \<and> set_secondary_channel remdups (set_channels (set_main_channel_names (subclass_init Spades
         ((new_process Spades ''spades'')\<lparr>u_template_path := Some ''/pkg/templates/spades.nf''\<rparr>))
         (PyInt 3) (PyInt 3) (PyInt 1)) [(''pid'', PyInt 3)]) ''MAIN_2'' [''pilon_in_4'']
       = Inl (AttributeError ''_output_channel'',
           set_channels (set_main_channel_names (subclass_init Spades
             ((new_process Spades ''spades'')\<lparr>u_template_path := Some ''/pkg/templates/spades.nf''\<rparr>))
             (PyInt 3) (PyInt 3) (PyInt 1)) [(''pid'', PyInt 3)])"
proof -
  let ?p = "subclass_init Spades
         ((new_process Spades ''spades'')\<lparr>u_template_path := Some ''/pkg/templates/spades.nf''\<rparr>)"
  let ?q = "set_channels (set_main_channel_names ?p (PyInt 3) (PyInt 3) (PyInt 1))
              [(''pid'', PyInt 3)]"
  have a: "construct ''/pkg'' (\<lambda>p. True) Spades ''spades'' = Inr ?p"
    by (simp add: construct_def Process_init_def u_set_template_def path_join_def
        startswith_def endswith_def)
  have b: "output_channel ?q = Some ''spades_out_3''"
    by (simp add: set_channels_def Let_def set_main_channel_names_def new_process_def
        str_int_digit digit_char_def)
  have c: "map_of (the (u_context ?q)) ''output_channel'' = Some (PyStr ''spades_out_3'')"
    by (simp add: set_channels_def Let_def set_main_channel_names_def new_process_def
        str_int_digit digit_char_def dict_merge_def map_of_dict_of_items)
  have n: "u_output_channel ?q = None"
    by (simp add: set_channels_def Let_def set_main_channel_names_def new_process_def)
  have m: "startswith ''MAIN'' ''MAIN_2''"
    by (simp add: startswith_def)
  have e: "set_secondary_channel remdups ?q ''MAIN_2'' [''pilon_in_4'']
      = Inl (AttributeError ''_output_channel'', ?q)"
    by (rule set_secondary_channel_main [OF m n])
  from a b c e show ?thesis by blast
qed

text \<open>
  Claim C4. On an object whose position index 7 was set by \<^verbatim>\<open>set_channels\<close>, the
  call \<^verbatim>\<open>set_secondary_channel("SIDE_phred", ["trim_in_8"])\<close> returns; it appends
  exactly the statement \<^verbatim>\<open>"\nSIDE_phred_7.set{ trim_in_8 }\n"\<close> to the forks and sets
  the \<^verbatim>\<open>forks\<close> value of the context to the join of the forks; nothing else of the
  object changes.
\<close>

theorem set_secondary_channel_side_phred:
  assumes "py_set_iter f" and "dict_get (dict_of_items kw) ''pid'' = PyInt 7"
  shows "set_secondary_channel f (set_channels d0 kw) ''SIDE_phred'' [''trim_in_8'']
      = Inr ((set_channels d0 kw)
          \<lparr>forks := forks (set_channels d0 kw) @ [nl @ ''SIDE_phred_7.set{ trim_in_8 }'' @ nl],
           u_context := Some (dict_merge (the (u_context (set_channels d0 kw)))
             [(''forks'', PyStr (join nl (forks (set_channels d0 kw)
                 @ [nl @ ''SIDE_phred_7.set{ trim_in_8 }'' @ nl])))])\<rparr>)
    \<and> map_of (dict_merge (the (u_context (set_channels d0 kw)))
             [(''forks'', PyStr (join nl (forks (set_channels d0 kw)
                 @ [nl @ ''SIDE_phred_7.set{ trim_in_8 }'' @ nl])))]) ''forks''
      = Some (PyStr (join nl (forks (set_channels d0 kw)
                 @ [nl @ ''SIDE_phred_7.set{ trim_in_8 }'' @ nl])))"
proof -
  obtain ctx where ctx: "u_context (set_channels d0 kw) = Some ctx"
    using set_channels_context [of d0 kw] by auto
  have p: "pid (set_channels d0 kw) = PyInt 7"
    using assms(2) by (simp add: set_channels_pid)
  have m: "\<not> startswith ''MAIN'' ''SIDE_phred''"
    by (simp add: startswith_def)
  have s: "f [''trim_in_8''] = [''trim_in_8'']"
    using assms(1) by (rule py_set_iter_single)
  show ?thesis
    by (simp add: set_secondary_channel_side [OF m ctx] ctx s p str_int_digit digit_char_def
        dict_merge_def map_of_dict_of_items)
qed

theorem set_secondary_channel_side_phred_witness:
  "py_set_iter remdups
   \<and> dict_get (dict_of_items [(''pid'', PyInt 7)]) ''pid'' = PyInt 7
   \<and> map_sum fst forks (set_secondary_channel remdups
        (set_channels (subclass_init IntegrityCoverage (new_process IntegrityCoverage ''integrity_coverage''))
           [(''pid'', PyInt 7)]) ''SIDE_phred'' [''trim_in_8''])
      = Inr [nl @ ''SIDE_phred_7.set{ trim_in_8 }'' @ nl]"
proof -
  let ?p = "subclass_init IntegrityCoverage (new_process IntegrityCoverage ''integrity_coverage'')"
  have h: "dict_get (dict_of_items [(''pid'', PyInt 7)]) ''pid'' = PyInt 7"
    by (simp add: dict_get_def dict_of_items_def)
  have e: "forks (set_channels ?p [(''pid'', PyInt 7)]) = []"
    by (simp add: set_channels_def Let_def new_process_def)
  have r: "map_sum fst forks (set_secondary_channel remdups
        (set_channels ?p [(''pid'', PyInt 7)]) ''SIDE_phred'' [''trim_in_8''])
      = Inr [nl @ ''SIDE_phred_7.set{ trim_in_8 }'' @ nl]"
    unfolding set_secondary_channel_side_phred [OF py_set_iter_remdups h, THEN conjunct1]
    by (simp add: e del: subclass_init.simps)
  from py_set_iter_remdups h r show ?thesis by blast
qed

text \<open>No sequence of calls gives an object the attribute.\<close>

lemma foldl_after_call_u_output_channel:
  "u_output_channel (foldl (after_call f) d ms) = u_output_channel d"
  by (induction ms arbitrary: d) (simp_all add: call_u_output_channel)

text \<open>
  A source that is not a main channel, on any object: the statement is appended to the
  forks before the context is read, so it is there whether the call returns or raises.
\<close>

lemma set_secondary_channel_side_forks:
  assumes "\<not> startswith ''MAIN'' source"
  shows "forks (after_call f d (SetSecondaryChannel source cl))
    = forks d @ [nl @ source @ ''_'' @ py_str (pid d)
                 @ (if length (f cl) = 1 then ''.set{ '' @ f cl ! 0
                    else ''.into{ '' @ join '';'' (f cl)) @ '' }'' @ nl]"
  using assms
  by (simp add: after_call_def set_secondary_channel_def Let_def split: option.splits)

text \<open>
  Claim C5. \<^verbatim>\<open>set_secondary_channel\<close> removes the duplicates of the destination list
  before it makes the statement. For a source that does not begin with \<^verbatim>\<open>MAIN\<close> this
  holds on every object: the call appends one statement to the forks, the destinations
  that the statement lists are those of the given list, and every one of them is listed
  exactly once, however often the list repeats it; on an object that has a context the
  call returns. For a source that begins with \<^verbatim>\<open>MAIN\<close> the claim fails on every object
  that a constructor and any calls of the methods produce: the call raises
  \<^verbatim>\<open>AttributeError\<close> at the read of \<^verbatim>\<open>self._output_channel\<close> and leaves the object as
  it was, so that no statement is made.
\<close>

theorem set_secondary_channel_dedup:
  assumes "py_set_iter f"
  shows "(\<not> startswith ''MAIN'' source \<longrightarrow>
        forks (after_call f d (SetSecondaryChannel source cl))
          = forks d @ [nl @ source @ ''_'' @ py_str (pid d)
                 @ (if length (f cl) = 1 then ''.set{ '' @ f cl ! 0
                    else ''.into{ '' @ join '';'' (f cl)) @ '' }'' @ nl])
    \<and> set (f cl) = set cl
    \<and> (\<forall>x \<in> set cl. count_list (f cl) x = 1)
    \<and> (\<not> startswith ''MAIN'' source \<and> u_context d \<noteq> None \<longrightarrow>
        (\<exists>d'. set_secondary_channel f d source cl = Inr d'))
    \<and> (startswith ''MAIN'' source \<and> construct here ex c tpl = Inr d0 \<longrightarrow>
        set_secondary_channel f (foldl (after_call f) d0 ms) source cl
          = Inl (AttributeError ''_output_channel'', foldl (after_call f) d0 ms))"
proof (intro conjI impI)
  assume "\<not> startswith ''MAIN'' source"
  then show "forks (after_call f d (SetSecondaryChannel source cl))
      = forks d @ [nl @ source @ ''_'' @ py_str (pid d)
                 @ (if length (f cl) = 1 then ''.set{ '' @ f cl ! 0
                    else ''.into{ '' @ join '';'' (f cl)) @ '' }'' @ nl]"
    by (rule set_secondary_channel_side_forks)
next
  from assms show s: "set (f cl) = set cl"
    by (simp add: py_set_iter_def)
next
  from assms have "distinct (f cl)" and "set (f cl) = set cl"
    by (simp_all add: py_set_iter_def)
  then show "\<forall>x \<in> set cl. count_list (f cl) x = 1"
    by (simp add: distinct_count_list_one)
next
  assume a: "\<not> startswith ''MAIN'' source \<and> u_context d \<noteq> None"
  then obtain ctx where "u_context d = Some ctx"
    by auto
  with a show "\<exists>d'. set_secondary_channel f d source cl = Inr d'"
    using set_secondary_channel_side [of source d ctx f cl] by blast
next
  assume a: "startswith ''MAIN'' source \<and> construct here ex c tpl = Inr d0"
  then have "u_output_channel d0 = None"
    using construct_u_output_channel [of here ex c tpl d0] by blast
  then have "u_output_channel (foldl (after_call f) d0 ms) = None"
    by (simp add: foldl_after_call_u_output_channel)
  with a show "set_secondary_channel f (foldl (after_call f) d0 ms) source cl
      = Inl (AttributeError ''_output_channel'', foldl (after_call f) d0 ms)"
    using set_secondary_channel_main [of source "foldl (after_call f) d0 ms" f cl] by blast
qed

theorem set_secondary_channel_dedup_witness:
  "py_set_iter remdups
   \<and> \<not> startswith ''MAIN'' ''SIDE_max_len''
   \<and> forks (after_call remdups (new_process Spades ''spades'')
        (SetSecondaryChannel ''SIDE_max_len'' [''pilon_in_4'', ''pilon_in_4'']))
      = [nl @ ''SIDE_max_len_None.set{ pilon_in_4 }'' @ nl]
   \<and> count_list (remdups [''pilon_in_4'', ''pilon_in_4'']) ''pilon_in_4'' = 1
   \<and> u_context (set_channels (new_process Spades ''spades'') [(''pid'', PyInt 7)]) \<noteq> None
   \<and> map_sum fst forks (set_secondary_channel remdups
        (set_channels (new_process Spades ''spades'') [(''pid'', PyInt 7)])
        ''SIDE_max_len'' [''pilon_in_9'', ''pilon_in_9''])
      = Inr [nl @ ''SIDE_max_len_7.set{ pilon_in_9 }'' @ nl]
   \<and> startswith ''MAIN'' ''MAIN_2''
   \<and> construct ''/pkg'' (\<lambda>p. True) Spades ''spades''
      = Inr (subclass_init Spades
          ((new_process Spades ''spades'')\<lparr>u_template_path := Some ''/pkg/templates/spades.nf''\<rparr>))
   \<and> map_sum (\<lambda>(e, s). (e, output_channel s, forks s)) forks
        (set_secondary_channel remdups (foldl (after_call remdups) (subclass_init Spades
          ((new_process Spades ''spades'')\<lparr>u_template_path := Some ''/pkg/templates/spades.nf''\<rparr>))
          [SetMainChannelNames (PyInt 3) (PyInt 3) (PyInt 1), SetChannels [(''pid'', PyInt 3)]])
        ''MAIN_2'' [''pilon_in_4'', ''pilon_in_4''])
      = Inl (AttributeError ''_output_channel'', Some ''spades_out_3'', [])"
proof -
  let ?p = "new_process Spades ''spades''"
  let ?q = "set_channels (new_process Spades ''spades'') [(''pid'', PyInt 7)]"
  let ?r = "subclass_init Spades
          ((new_process Spades ''spades'')\<lparr>u_template_path := Some ''/pkg/templates/spades.nf''\<rparr>)"
  let ?ms = "[SetMainChannelNames (PyInt 3) (PyInt 3) (PyInt 1), SetChannels [(''pid'', PyInt 3)]]"
  note t = set_secondary_channel_dedup [OF py_set_iter_remdups]
  have m: "\<not> startswith ''MAIN'' ''SIDE_max_len''"
    by (simp add: startswith_def)
  have v: "forks ?p = []" "pid ?p = PyNone"
    by (simp_all add: new_process_def)
  have a: "forks (after_call remdups ?p
        (SetSecondaryChannel ''SIDE_max_len'' [''pilon_in_4'', ''pilon_in_4'']))
      = [nl @ ''SIDE_max_len_None.set{ pilon_in_4 }'' @ nl]"
    unfolding t [THEN conjunct1, rule_format, OF m] by (simp add: v)
  have n: "count_list (remdups [''pilon_in_4'', ''pilon_in_4'']) ''pilon_in_4'' = 1"
    using t [where cl = "[''pilon_in_4'', ''pilon_in_4'']", THEN conjunct2, THEN conjunct2, THEN conjunct1]
    by simp
  have c: "u_context ?q \<noteq> None"
    by (simp add: set_channels_def Let_def)
  have w: "forks ?q = []" "pid ?q = PyInt 7"
    by (simp_all add: set_channels_def Let_def new_process_def dict_get_def dict_of_items_def)
  have h: "\<not> startswith ''MAIN'' ''SIDE_max_len'' \<and> u_context ?q \<noteq> None"
    using m c by blast
  obtain d' where d': "set_secondary_channel remdups ?q ''SIDE_max_len''
      [''pilon_in_9'', ''pilon_in_9''] = Inr d'"
    using t [THEN conjunct2, THEN conjunct2, THEN conjunct2, THEN conjunct1, rule_format, OF h]
    by blast
  have i: "forks (after_call remdups ?q
        (SetSecondaryChannel ''SIDE_max_len'' [''pilon_in_9'', ''pilon_in_9'']))
      = [nl @ ''SIDE_max_len_7.set{ pilon_in_9 }'' @ nl]"
    unfolding t [THEN conjunct1, rule_format, OF m] by (simp add: w str_int_digit digit_char_def)
  from d' have "d' = after_call remdups ?q
      (SetSecondaryChannel ''SIDE_max_len'' [''pilon_in_9'', ''pilon_in_9''])"
    by (simp add: after_call_def)
  with i have "forks d' = [nl @ ''SIDE_max_len_7.set{ pilon_in_9 }'' @ nl]"
    by simp
  with d' have b: "map_sum fst forks (set_secondary_channel remdups ?q
        ''SIDE_max_len'' [''pilon_in_9'', ''pilon_in_9''])
      = Inr [nl @ ''SIDE_max_len_7.set{ pilon_in_9 }'' @ nl]"
    by simp
  have s: "startswith ''MAIN'' ''MAIN_2''"
    by (simp add: startswith_def)
  have k: "construct ''/pkg'' (\<lambda>p. True) Spades ''spades'' = Inr ?r"
    by (simp add: construct_def Process_init_def u_set_template_def path_join_def
        startswith_def endswith_def)
  have g: "startswith ''MAIN'' ''MAIN_2'' \<and> construct ''/pkg'' (\<lambda>p. True) Spades ''spades'' = Inr ?r"
    using s k by blast
  have x: "output_channel (foldl (after_call remdups) ?r ?ms) = Some ''spades_out_3''"
      "forks (foldl (after_call remdups) ?r ?ms) = []"
    by (simp_all add: after_call_def set_channels_def Let_def set_main_channel_names_def
        new_process_def str_int_digit digit_char_def)
  have e: "map_sum (\<lambda>(e, s). (e, output_channel s, forks s)) forks
        (set_secondary_channel remdups (foldl (after_call remdups) ?r ?ms)
        ''MAIN_2'' [''pilon_in_4'', ''pilon_in_4''])
      = Inl (AttributeError ''_output_channel'', Some ''spades_out_3'', [])"
    unfolding t [THEN conjunct2, THEN conjunct2, THEN conjunct2, THEN conjunct2, rule_format, OF g]
    by (simp add: x del: foldl.simps subclass_init.simps)
  from py_set_iter_remdups m a n c b s k e show ?thesis by blast
qed

subsection \<open>Raw inputs of the entry point\<close>

text \<open>
  Claim C9, amended. On an object that has a context (set by \<^verbatim>\<open>set_channels\<close>),
  \<^verbatim>\<open>set_raw_inputs\<close> with one record whose \<open>raw_forks\<close> has a single target appends
  \<^verbatim>\<open>"\n<channel>.set{ <target> }\n"\<close> to the forks and merges into the context the
  join of the forks as \<^verbatim>\<open>forks\<close> and the bootstrap statement of the record as
  \<^verbatim>\<open>main_inputs\<close>; with two targets the statement is
  \<^verbatim>\<open>"\n<channel>.into{ <t1>;<t2> }\n"\<close>.
\<close>

theorem set_raw_inputs_one_record:
  assumes "u_context d = Some ctx"
  shows "(raw_forks r = [t] \<longrightarrow>
       set_raw_inputs d [(k, r)]
         = Inr (d\<lparr>forks := forks d @ [nl @ channel r @ ''.set{ '' @ t @ '' }'' @ nl],
                 u_context := Some (dict_merge ctx
                   [(''forks'', PyStr (join nl
                       (forks d @ [nl @ channel r @ ''.set{ '' @ t @ '' }'' @ nl]))),
                    (''main_inputs'', PyStr (channel_str r))])\<rparr>))
    \<and> (raw_forks r = [t1, t2] \<longrightarrow>
       set_raw_inputs d [(k, r)]
         = Inr (d\<lparr>forks := forks d @ [nl @ channel r @ ''.into{ '' @ t1 @ '';'' @ t2 @ '' }'' @ nl],
                 u_context := Some (dict_merge ctx
                   [(''forks'', PyStr (join nl
                       (forks d @ [nl @ channel r @ ''.into{ '' @ t1 @ '';'' @ t2 @ '' }'' @ nl]))),
                    (''main_inputs'', PyStr (channel_str r))])\<rparr>))
    \<and> map_of (dict_merge ctx [(''forks'', a), (''main_inputs'', b)]) ''main_inputs'' = Some b
    \<and> map_of (dict_merge ctx [(''forks'', a), (''main_inputs'', b)]) ''forks'' = Some a"
  using assms
  by (simp add: set_raw_inputs_def Let_def dict_merge_def map_of_dict_of_items)

theorem set_raw_inputs_one_record_witness:
  "u_context (set_channels (subclass_init Init (new_process Init ''init'')) [(''pid'', PyInt 0)])
     = Some (the (u_context
         (set_channels (subclass_init Init (new_process Init ''init'')) [(''pid'', PyInt 0)])))
   \<and> raw_forks \<lparr>channel = ''IN_fastq_raw'',
         channel_str = ''IN_fastq_raw = Channel.fromFilePairs(params.fastq)'',
         raw_forks = [''integrity_coverage_in_1_0'']\<rparr> = [''integrity_coverage_in_1_0'']
   \<and> map_sum fst forks (set_raw_inputs
        (set_channels (subclass_init Init (new_process Init ''init'')) [(''pid'', PyInt 0)])
        [(''fastq'', \<lparr>channel = ''IN_fastq_raw'',
            channel_str = ''IN_fastq_raw = Channel.fromFilePairs(params.fastq)'',
            raw_forks = [''integrity_coverage_in_1_0'']\<rparr>)])
      = Inr [nl @ ''IN_fastq_raw.set{ integrity_coverage_in_1_0 }'' @ nl]
   \<and> map_sum fst (\<lambda>s. map_of (the (u_context s)) ''main_inputs'') (set_raw_inputs
        (set_channels (subclass_init Init (new_process Init ''init'')) [(''pid'', PyInt 0)])
        [(''fastq'', \<lparr>channel = ''IN_fastq_raw'',
            channel_str = ''IN_fastq_raw = Channel.fromFilePairs(params.fastq)'',
            raw_forks = [''integrity_coverage_in_1_0'']\<rparr>)])
      = Inr (Some (PyStr ''IN_fastq_raw = Channel.fromFilePairs(params.fastq)''))
   \<and> raw_forks \<lparr>channel = ''IN_fastq_raw'',
         channel_str = ''IN_fastq_raw = Channel.fromFilePairs(params.fastq)'',
         raw_forks = [''a_in_1'', ''b_in_1'']\<rparr> = [''a_in_1'', ''b_in_1'']
   \<and> map_sum fst forks (set_raw_inputs
        (set_channels (subclass_init Init (new_process Init ''init'')) [(''pid'', PyInt 0)])
        [(''fastq'', \<lparr>channel = ''IN_fastq_raw'',
            channel_str = ''IN_fastq_raw = Channel.fromFilePairs(params.fastq)'',
            raw_forks = [''a_in_1'', ''b_in_1'']\<rparr>)])
      = Inr [nl @ ''IN_fastq_raw.into{ a_in_1;b_in_1 }'' @ nl]"
proof -
  let ?q = "set_channels (subclass_init Init (new_process Init ''init'')) [(''pid'', PyInt 0)]"
  let ?r1 = "\<lparr>channel = ''IN_fastq_raw'',
         channel_str = ''IN_fastq_raw = Channel.fromFilePairs(params.fastq)'',
         raw_forks = [''integrity_coverage_in_1_0'']\<rparr>"
  let ?r2 = "\<lparr>channel = ''IN_fastq_raw'',
         channel_str = ''IN_fastq_raw = Channel.fromFilePairs(params.fastq)'',
         raw_forks = [''a_in_1'', ''b_in_1'']\<rparr>"
  have c: "u_context ?q = Some (the (u_context ?q))"
    by (simp add: set_channels_def Let_def)
  have v: "forks ?q = []"
    by (simp add: set_channels_def Let_def new_process_def)
  have h1: "raw_forks ?r1 = [''integrity_coverage_in_1_0'']" by simp
  have h2: "raw_forks ?r2 = [''a_in_1'', ''b_in_1'']" by simp
  note t1 = set_raw_inputs_one_record [OF c, of ?r1 "''integrity_coverage_in_1_0''" "''fastq''",
      THEN conjunct1, rule_format, OF h1]
  note t2 = set_raw_inputs_one_record [OF c, of ?r2 _ "''fastq''" "''a_in_1''" "''b_in_1''",
      THEN conjunct2, THEN conjunct1, rule_format, OF h2]
  have a: "map_sum fst forks (set_raw_inputs ?q [(''fastq'', ?r1)])
      = Inr [nl @ ''IN_fastq_raw.set{ integrity_coverage_in_1_0 }'' @ nl]"
    unfolding t1 by (simp add: v del: subclass_init.simps)
  have b: "map_sum fst (\<lambda>s. map_of (the (u_context s)) ''main_inputs'')
        (set_raw_inputs ?q [(''fastq'', ?r1)])
      = Inr (Some (PyStr ''IN_fastq_raw = Channel.fromFilePairs(params.fastq)''))"
    unfolding t1 by (simp add: dict_merge_def map_of_dict_of_items del: subclass_init.simps)
  have d: "map_sum fst forks (set_raw_inputs ?q [(''fastq'', ?r2)])
      = Inr [nl @ ''IN_fastq_raw.into{ a_in_1;b_in_1 }'' @ nl]"
    unfolding t2 by (simp add: v del: subclass_init.simps)
  from c h1 a b h2 d show ?thesis by blast
qed

text \<open>
  On a new \<^verbatim>\<open>Init\<close> object the call raises \<^verbatim>\<open>TypeError\<close>: the statement has been
  appended to the forks, and the context, which the last statement of the method
  unpacks, is still \<^verbatim>\<open>None\<close>, so no \<^verbatim>\<open>main_inputs\<close> value is set.
\<close>

theorem set_raw_inputs_new_init_counterexample:
  "construct ''/pkg'' (\<lambda>p. True) Init ''init''
     = Inr (subclass_init Init
         ((new_process Init ''init'')\<lparr>u_template_path := Some ''/pkg/templates/init.nf''\<rparr>))
   \<and> map_sum (\<lambda>(e, s). (e, u_context s, forks s)) u_context (set_raw_inputs
        (subclass_init Init
           ((new_process Init ''init'')\<lparr>u_template_path := Some ''/pkg/templates/init.nf''\<rparr>))
        [(''fastq'', \<lparr>channel = ''IN_fastq_raw'',
            channel_str = ''IN_fastq_raw = Channel.fromFilePairs(params.fastq)'',
            raw_forks = [''integrity_coverage_in_1_0'']\<rparr>)])
      = Inl (TypeError, None, [nl @ ''IN_fastq_raw.set{ integrity_coverage_in_1_0 }'' @ nl])"
  by (simp add: construct_def Process_init_def u_set_template_def path_join_def
      startswith_def endswith_def set_raw_inputs_def Let_def new_process_def)

subsection \<open>Construction and the template file\<close>

lemma startswith_slash_append: "startswith ''/'' (tpl @ ''.nf'') = startswith ''/'' tpl"
  by (cases tpl) (simp_all add: startswith_def)

text \<open>The templates directory is not empty and does not end in a slash.\<close>

lemma templates_dir_shape:
  "path_join here ''templates'' \<noteq> [] \<and> \<not> endswith ''/'' (path_join here ''templates'')"
  by (simp add: path_join_def startswith_def endswith_def)

lemma subclass_init_template_path: "u_template_path (subclass_init c d) = u_template_path d"
  by (cases c) simp_all

text \<open>
  Claim C2, amended. Construction resolves the path
  \<^verbatim>\<open>join(<templates-directory>, <identifier> + ".nf")\<close>. If no file exists at that path,
  construction fails with the error of a missing template and makes no object; if
  one exists, construction succeeds and records that path. The resolved path is
  \<^verbatim>\<open><templates-directory>/<identifier>.nf\<close> when the identifier does not begin with a
  slash, and \<^verbatim>\<open><identifier>.nf\<close> alone when it does.
\<close>

theorem construct_template_path:
  "(ex (path_join (path_join here ''templates'') (tpl @ ''.nf'')) \<longrightarrow>
      construct here ex c tpl
        = Inr (subclass_init c ((new_process c tpl)
            \<lparr>u_template_path := Some (path_join (path_join here ''templates'') (tpl @ ''.nf''))\<rparr>))
      \<and> u_template_path (subclass_init c ((new_process c tpl)
            \<lparr>u_template_path := Some (path_join (path_join here ''templates'') (tpl @ ''.nf''))\<rparr>))
        = Some (path_join (path_join here ''templates'') (tpl @ ''.nf'')))
   \<and> (\<not> ex (path_join (path_join here ''templates'') (tpl @ ''.nf'')) \<longrightarrow>
      construct here ex c tpl
        = Inl (MissingTemplate (''Template ''
            @ path_join (path_join here ''templates'') (tpl @ ''.nf'') @ '' does not exist'')))
   \<and> (\<not> startswith ''/'' tpl \<longrightarrow>
      path_join (path_join here ''templates'') (tpl @ ''.nf'')
        = path_join here ''templates'' @ ''/'' @ tpl @ ''.nf'')
   \<and> (startswith ''/'' tpl \<longrightarrow>
      path_join (path_join here ''templates'') (tpl @ ''.nf'') = tpl @ ''.nf'')"
proof -
  have a: "\<not> startswith ''/'' tpl \<longrightarrow>
      path_join (path_join here ''templates'') (tpl @ ''.nf'')
        = path_join here ''templates'' @ ''/'' @ tpl @ ''.nf''"
    using templates_dir_shape [of here]
    by (simp add: path_join_def [of "path_join here ''templates''"] startswith_slash_append)
  have b: "startswith ''/'' tpl \<longrightarrow>
      path_join (path_join here ''templates'') (tpl @ ''.nf'') = tpl @ ''.nf''"
    by (simp add: path_join_def [of "path_join here ''templates''"] startswith_slash_append)
  have c: "ex (path_join (path_join here ''templates'') (tpl @ ''.nf'')) \<longrightarrow>
      construct here ex c tpl
        = Inr (subclass_init c ((new_process c tpl)
            \<lparr>u_template_path := Some (path_join (path_join here ''templates'') (tpl @ ''.nf''))\<rparr>))"
    by (simp add: construct_def Process_init_def u_set_template_def Let_def)
  have d: "\<not> ex (path_join (path_join here ''templates'') (tpl @ ''.nf'')) \<longrightarrow>
      construct here ex c tpl
        = Inl (MissingTemplate (''Template ''
            @ path_join (path_join here ''templates'') (tpl @ ''.nf'') @ '' does not exist''))"
    by (simp add: construct_def Process_init_def u_set_template_def Let_def)
  from a b c d show ?thesis
    by (simp add: subclass_init_template_path)
qed

theorem construct_template_path_witness:
  "(\<lambda>p. p = ''/pkg/templates/fastqc.nf'')
       (path_join (path_join ''/pkg'' ''templates'') (''fastqc'' @ ''.nf''))
   \<and> construct ''/pkg'' (\<lambda>p. p = ''/pkg/templates/fastqc.nf'') FastQC ''fastqc''
       = Inr (subclass_init FastQC ((new_process FastQC ''fastqc'')
           \<lparr>u_template_path := Some ''/pkg/templates/fastqc.nf''\<rparr>))
   \<and> \<not> (\<lambda>p. p = ''/pkg/templates/fastqc.nf'')
       (path_join (path_join ''/pkg'' ''templates'') (''spades'' @ ''.nf''))
   \<and> construct ''/pkg'' (\<lambda>p. p = ''/pkg/templates/fastqc.nf'') Spades ''spades''
       = Inl (MissingTemplate ''Template /pkg/templates/spades.nf does not exist'')
   \<and> \<not> startswith ''/'' ''spades''
   \<and> path_join (path_join ''/pkg'' ''templates'') (''spades'' @ ''.nf'')
       = ''/pkg/templates/spades.nf''
   \<and> startswith ''/'' ''/tmp/x''
   \<and> path_join (path_join ''/pkg'' ''templates'') (''/tmp/x'' @ ''.nf'') = ''/tmp/x.nf''"
proof -
  have p: "path_join ''/pkg'' ''templates'' = ''/pkg/templates''"
    by (simp add: path_join_def startswith_def endswith_def)
  have h1: "(\<lambda>p. p = ''/pkg/templates/fastqc.nf'')
       (path_join (path_join ''/pkg'' ''templates'') (''fastqc'' @ ''.nf''))"
    by (simp add: path_join_def startswith_def endswith_def)
  have h2: "\<not> (\<lambda>p. p = ''/pkg/templates/fastqc.nf'')
       (path_join (path_join ''/pkg'' ''templates'') (''spades'' @ ''.nf''))"
    by (simp add: path_join_def startswith_def endswith_def)
  have h3: "\<not> startswith ''/'' ''spades''" by (simp add: startswith_def)
  have h4: "startswith ''/'' ''/tmp/x''" by (simp add: startswith_def)
  have a: "construct ''/pkg'' (\<lambda>p. p = ''/pkg/templates/fastqc.nf'') FastQC ''fastqc''
       = Inr (subclass_init FastQC ((new_process FastQC ''fastqc'')
           \<lparr>u_template_path := Some ''/pkg/templates/fastqc.nf''\<rparr>))"
    using construct_template_path [of "\<lambda>p. p = ''/pkg/templates/fastqc.nf''" "''/pkg''"
        "''fastqc''" FastQC, THEN conjunct1, rule_format, OF h1, THEN conjunct1] h1
    by simp
  have b: "construct ''/pkg'' (\<lambda>p. p = ''/pkg/templates/fastqc.nf'') Spades ''spades''
       = Inl (MissingTemplate ''Template /pkg/templates/spades.nf does not exist'')"
    using construct_template_path [of "\<lambda>p. p = ''/pkg/templates/fastqc.nf''" "''/pkg''"
        "''spades''" Spades, THEN conjunct2, THEN conjunct1, rule_format, OF h2]
    by (simp add: path_join_def startswith_def endswith_def)
  have c: "path_join (path_join ''/pkg'' ''templates'') (''spades'' @ ''.nf'')
       = ''/pkg/templates/spades.nf''"
    using construct_template_path [of "\<lambda>p. True" "''/pkg''" "''spades''" Spades,
        THEN conjunct2, THEN conjunct2, THEN conjunct1, rule_format, OF h3]
    by (simp add: p)
  have d: "path_join (path_join ''/pkg'' ''templates'') (''/tmp/x'' @ ''.nf'') = ''/tmp/x.nf''"
    using construct_template_path [of "\<lambda>p. True" "''/pkg''" "''/tmp/x''" Spades,
        THEN conjunct2, THEN conjunct2, THEN conjunct2, rule_format, OF h4]
    by simp
  from h1 a h2 b h3 c h4 d show ?thesis by blast
qed

text \<open>
  The claim as stated names the file \<^verbatim>\<open><templates-directory>/<identifier>.nf\<close>. For
  the identifier \<^verbatim>\<open>/x\<close>, in a file system whose only file is \<^verbatim>\<open>/x.nf\<close>, no such
  file exists in the templates directory, and construction succeeds all the same,
  with \<^verbatim>\<open>/x.nf\<close> as the template path.
\<close>

theorem construct_absolute_identifier_counterexample:
  "\<not> (\<lambda>p. p = ''/x.nf'') (path_join ''/pkg'' ''templates'' @ ''/'' @ ''/x'' @ ''.nf'')
   \<and> construct ''/pkg'' (\<lambda>p. p = ''/x.nf'') Process ''/x''
       = Inr ((new_process Process ''/x'')\<lparr>u_template_path := Some ''/x.nf''\<rparr>)"
  by (simp add: construct_def Process_init_def u_set_template_def path_join_def
      startswith_def endswith_def)

subsection \<open>Rendering and the context\<close>




















end
